theory Spec2Isabelle
  imports Main "HOL-Library.Sublist"
begin

section \<open>Python values\<close>

text \<open>
  The notebook defines one class, \<open>Tool\<close>, and one decorator, \<open>tool\<close>. Python is
  dynamically typed, so the fields of a \<open>Tool\<close> hold arbitrary values. The model works
  over the following fragment of Python's values: \<open>None\<close>, booleans, integers, strings
  (lists of 8-bit characters, read as code points below 256), tuples and lists.
  Integers and indices are those of a 64-bit CPython 3.12 with its default settings. Running
  out of memory is not modelled.
\<close>

datatype pyval =
    VNone
  | VBool bool
  | VInt int
  | VStr string
  | VTuple "pyval list"
  | VList "pyval list"

text \<open>
  Exceptions are values. \<open>Raised\<close> stands for any exception that user code raises
  itself, identified by its text.
\<close>

datatype exn =
    TypeError
  | ValueError
  | AttributeError
  | OverflowError
  | MemoryError
  | Raised string

subsection \<open>\<open>str\<close>, \<open>repr\<close> and \<open>format\<close>\<close>

text \<open>\<open>sep.join(parts)\<close>.\<close>

fun join :: "string \<Rightarrow> string list \<Rightarrow> string" where
  "join sep [] = []"
| "join sep [x] = x"
| "join sep (x # y # ys) = x @ sep @ join sep (y # ys)"

definition digit_char :: "nat \<Rightarrow> char" where
  "digit_char n = char_of (48 + n)"

function str_nat :: "nat \<Rightarrow> string" where
  "str_nat n = (if n < 10 then [digit_char n] else str_nat (n div 10) @ [digit_char (n mod 10)])"
  by pat_completeness auto
termination
  by (relation "measure id") auto

declare str_nat.simps [simp del]

text \<open>
  The decimal text of an integer. The conversion raises \<open>ValueError\<close> when the number
  has more than \<open>sys.int_info.default_max_str_digits\<close> digits, the sign not counted.
\<close>

definition int_max_str_digits :: nat where
  "int_max_str_digits = 4300"

definition str_int :: "int \<Rightarrow> exn + string" where
  "str_int i =
     (let digits = str_nat (nat \<bar>i\<bar>)
      in if int_max_str_digits < length digits then Inl ValueError
         else Inr (if i < 0 then CHR ''-'' # digits else digits))"

text \<open>The results of a list of conversions, or the first exception among them.\<close>

fun first_error :: "(exn + 'a) list \<Rightarrow> exn + 'a list" where
  "first_error [] = Inr []"
| "first_error (r # rs) =
     (case r of
        Inl e \<Rightarrow> Inl e
      | Inr v \<Rightarrow>
          (case first_error rs of
             Inl e \<Rightarrow> Inl e
           | Inr vs \<Rightarrow> Inr (v # vs)))"

text \<open>
  \<open>repr\<close> of a string: the quote is \<open>"\<close> when the string holds a \<open>'\<close> and no \<open>"\<close>,
  and \<open>'\<close> otherwise; the quote and the backslash are escaped, tab, line feed and carriage
  return are written \<open>\t\<close>, \<open>\n\<close>, \<open>\r\<close>, and any other character that is not
  printable is written \<open>\xhh\<close>.
\<close>

definition hex_digit :: "nat \<Rightarrow> char" where
  "hex_digit n = (if n < 10 then char_of (48 + n) else char_of (87 + n))"

definition printable :: "char \<Rightarrow> bool" where
  "printable c = (let n = (of_char c :: nat) in (32 \<le> n \<and> n < 127) \<or> (161 \<le> n \<and> n \<noteq> 173))"

definition escape_char :: "char \<Rightarrow> char \<Rightarrow> string" where
  "escape_char q c =
     (if c = q \<or> c = CHR 0x5C then [CHR 0x5C, c]
      else if c = CHR 0x09 then [CHR 0x5C, CHR ''t'']
      else if c = CHR 0x0A then [CHR 0x5C, CHR ''n'']
      else if c = CHR 0x0D then [CHR 0x5C, CHR ''r'']
      else if printable c then [c]
      else [CHR 0x5C, CHR ''x'', hex_digit (of_char c div 16), hex_digit (of_char c mod 16)])"

definition repr_str :: "string \<Rightarrow> string" where
  "repr_str s =
     (let q = (if CHR 0x27 \<in> set s \<and> CHR 0x22 \<notin> set s then CHR 0x22 else CHR 0x27)
      in q # concat (map (escape_char q) s) @ [q])"

fun py_repr :: "pyval \<Rightarrow> exn + string" where
  "py_repr VNone = Inr ''None''"
| "py_repr (VBool b) = Inr (if b then ''True'' else ''False'')"
| "py_repr (VInt i) = str_int i"
| "py_repr (VStr s) = Inr (repr_str s)"
| "py_repr (VTuple xs) =
     (case first_error (map py_repr xs) of
        Inl e \<Rightarrow> Inl e
      | Inr parts \<Rightarrow>
          Inr (''('' @ join '', '' parts @ (if length xs = 1 then '',)'' else '')'')))"
| "py_repr (VList xs) =
     (case first_error (map py_repr xs) of
        Inl e \<Rightarrow> Inl e
      | Inr parts \<Rightarrow> Inr (''['' @ join '', '' parts @ '']''))"

text \<open>
  \<open>str(v)\<close>, which is also what a replacement field \<open>{v}\<close> of an f-string produces
  (\<open>format(v, "")\<close>) for the values of the fragment.
\<close>

fun py_format :: "pyval \<Rightarrow> exn + string" where
  "py_format (VStr s) = Inr s"
| "py_format v = py_repr v"

subsection \<open>Iteration and unpacking\<close>

text \<open>
  \<open>iter(v)\<close>: tuples and lists yield their items, a string yields its characters as
  one-character strings, anything else raises \<open>TypeError\<close>.
\<close>

fun py_iter :: "pyval \<Rightarrow> exn + pyval list" where
  "py_iter (VStr s) = Inr (map (\<lambda>c. VStr [c]) s)"
| "py_iter (VTuple xs) = Inr xs"
| "py_iter (VList xs) = Inr xs"
| "py_iter v = Inl TypeError"

text \<open>
  The target \<open>arg_name, arg_type\<close> of the comprehension in \<open>to_string\<close>: the item must
  be iterable (\<open>TypeError\<close> otherwise) and yield exactly two values (\<open>ValueError\<close>
  otherwise).
\<close>

definition unpack2 :: "pyval \<Rightarrow> exn + (pyval \<times> pyval)" where
  "unpack2 v =
     (case py_iter v of
        Inl e \<Rightarrow> Inl e
      | Inr [a, b] \<Rightarrow> Inr (a, b)
      | Inr _ \<Rightarrow> Inl ValueError)"

section \<open>The class \<open>Tool\<close>\<close>

text \<open>
  The field \<open>func\<close> holds a reference to the wrapped object: a function object, named by
  its identity, or a plain value (which is not callable).
\<close>

datatype pyobj = Val pyval | Fun nat

record Tool =
  name :: pyval
  description :: pyval
  func :: pyobj
  arguments :: pyval
  outputs :: pyval

text \<open>
  \<open>Tool.__init__\<close>: five assignments, no check and no \<open>raise\<close>.
\<close>

definition Tool_init :: "pyval \<Rightarrow> pyval \<Rightarrow> pyobj \<Rightarrow> pyval \<Rightarrow> pyval \<Rightarrow> Tool" where
  "Tool_init name' description' func' arguments' outputs' =
     \<lparr> name = name', description = description', func = func',
       arguments = arguments', outputs = outputs' \<rparr>"

text \<open>
  \<open>Tool.to_string\<close>. The list comprehension walks \<open>self.arguments\<close> in order and stops
  at the first item that does not unpack or whose name or type cannot be formatted; the
  f-string then formats the name, the description and the outputs, in that order.
\<close>

fun format_arguments :: "pyval list \<Rightarrow> exn + string list" where
  "format_arguments [] = Inr []"
| "format_arguments (x # xs) =
     (case unpack2 x of
        Inl e \<Rightarrow> Inl e
      | Inr (arg_name, arg_type) \<Rightarrow>
          (case py_format arg_name of
             Inl e \<Rightarrow> Inl e
           | Inr name_str \<Rightarrow>
               (case py_format arg_type of
                  Inl e \<Rightarrow> Inl e
                | Inr type_str \<Rightarrow>
                    (case format_arguments xs of
                       Inl e \<Rightarrow> Inl e
                     | Inr rest \<Rightarrow> Inr ((name_str @ '': '' @ type_str) # rest)))))"

definition to_string :: "Tool \<Rightarrow> exn + string" where
  "to_string self =
     (case py_iter (arguments self) of
        Inl e \<Rightarrow> Inl e
      | Inr items \<Rightarrow>
          (case format_arguments items of
             Inl e \<Rightarrow> Inl e
           | Inr parts \<Rightarrow>
               (let args_str = join '', '' parts
                in case py_format (name self) of
                     Inl e \<Rightarrow> Inl e
                   | Inr name_str \<Rightarrow>
                       (case py_format (description self) of
                          Inl e \<Rightarrow> Inl e
                        | Inr description_str \<Rightarrow>
                            (case py_format (outputs self) of
                               Inl e \<Rightarrow> Inl e
                             | Inr outputs_str \<Rightarrow>
                                 Inr (''Tool Name: '' @ name_str @ '','' @
                                      '' Description: '' @ description_str @ '','' @
                                      '' Arguments: '' @ args_str @ '','' @
                                      '' Outputs: '' @ outputs_str))))))"

section \<open>Function objects and calls\<close>

text \<open>
  What the decorator reads of the object it is given: \<open>inspect.signature(func)\<close>, which
  raises for an object it cannot introspect, \<open>func.__doc__\<close> (\<open>None\<close> when the
  function has no documentation string) and \<open>func.__name__\<close> (absent on some callables,
  for instance \<open>functools.partial\<close> objects; reading it then raises \<open>AttributeError\<close>).

  An annotation is \<open>inspect._empty\<close>, the marker class of a parameter or return value
  declared without a type, or any other object, given by its \<open>__name__\<close> attribute (if
  it has one) and by its \<open>str\<close>. Annotation objects whose \<open>__name__\<close> is not a string,
  or whose \<open>__name__\<close> or \<open>__str__\<close> raises when read, are outside the model.
\<close>

datatype annotation = Empty | Obj "string option" string

fun getattr_name :: "annotation \<Rightarrow> string option" where
  "getattr_name Empty = Some ''_empty''"
| "getattr_name (Obj n s) = n"

fun str_annotation :: "annotation \<Rightarrow> string" where
  "str_annotation Empty = ''<class '' @ [CHR 0x27] @ ''inspect._empty'' @ [CHR 0x27] @ ''>''"
| "str_annotation (Obj n s) = s"

record signature =
  parameters :: "(string \<times> annotation) list"
  return_annotation :: annotation

text \<open>
  Objects that outlive a call live in a heap of \<open>Tool\<close> objects. A callable takes the
  positional arguments, the keyword arguments (in the order given, keys distinct) and the
  heap, and returns a value or raises, with the heap as it leaves it. A function object is
  what the decorator reads of it together with what a call of it does; the operations
  below take an environment \<open>env\<close> that gives the function object behind each identity.
\<close>

type_synonym heap = "nat \<Rightarrow> Tool option"

type_synonym kwargs = "(string \<times> pyval) list"

type_synonym behaviour = "pyval list \<Rightarrow> kwargs \<Rightarrow> heap \<Rightarrow> (exn + pyval) \<times> heap"

record pyfunc =
  f_name :: "string option"
  f_doc :: "string option"
  f_signature :: "exn + signature"
  f_call :: behaviour

text \<open>
  \<open>func(*args, **kwargs)\<close> on an object: a function object runs, anything else raises
  \<open>TypeError\<close> (not callable).
\<close>

definition call_object :: "(nat \<Rightarrow> pyfunc) \<Rightarrow> pyobj \<Rightarrow> behaviour" where
  "call_object env f args kw h =
     (case f of
        Fun i \<Rightarrow> f_call (env i) args kw h
      | Val v \<Rightarrow> (Inl TypeError, h))"

text \<open>
  \<open>Tool.__call__(self, *args, **kwargs)\<close>. The parameter \<open>self\<close> is an ordinary
  positional-or-keyword parameter, already bound to the \<open>Tool\<close>: a keyword argument
  named \<open>self\<close> is a second value for it, and Python raises \<open>TypeError\<close> before the
  body runs. Otherwise the body returns \<open>self.func(*args, **kwargs)\<close>.
\<close>

definition Tool_call :: "(nat \<Rightarrow> pyfunc) \<Rightarrow> Tool \<Rightarrow> behaviour" where
  "Tool_call env self args kw h =
     (if ''self'' \<in> set (map fst kw) then (Inl TypeError, h)
      else call_object env (func self) args kw h)"

section \<open>The decorator \<open>tool\<close>\<close>

text \<open>
  \<open>param.annotation.__name__ if hasattr(param.annotation, '__name__') else
  str(param.annotation)\<close>, and the same expression on the return annotation.
\<close>

definition annotation_name :: "annotation \<Rightarrow> string" where
  "annotation_name a = (case getattr_name a of Some n \<Rightarrow> n | None \<Rightarrow> str_annotation a)"

text \<open>The loop over \<open>signature.parameters.values()\<close>, appending to \<open>arguments\<close>.\<close>

fun collect_arguments :: "(string \<times> annotation) list \<Rightarrow> pyval list \<Rightarrow> pyval list" where
  "collect_arguments [] arguments' = arguments'"
| "collect_arguments ((param_name, param_annotation) # params) arguments' =
     collect_arguments params
       (arguments' @ [VTuple [VStr param_name, VStr (annotation_name param_annotation)]])"

definition tool :: "(nat \<Rightarrow> pyfunc) \<Rightarrow> pyobj \<Rightarrow> exn + Tool" where
  "tool env func' =
     (case func' of
        Val v \<Rightarrow> Inl TypeError
      | Fun i \<Rightarrow>
          (case f_signature (env i) of
             Inl e \<Rightarrow> Inl e
           | Inr sg \<Rightarrow>
               (let arguments' = collect_arguments (parameters sg) [];
                    outputs' =
                      (if return_annotation sg = Empty then ''No return annotation''
                       else annotation_name (return_annotation sg));
                    description' =
                      (case f_doc (env i) of
                         None \<Rightarrow> ''No description provided.''
                       | Some d \<Rightarrow> if d = [] then ''No description provided.'' else d)
                in case f_name (env i) of
                     None \<Rightarrow> Inl AttributeError
                   | Some name' \<Rightarrow>
                       Inr (Tool_init (VStr name') (VStr description') func'
                              (VList arguments') (VStr outputs')))))"

section \<open>The public operations on a \<open>Tool\<close> in the heap\<close>

text \<open>
  The two public operations, performed on the \<open>Tool\<close> stored at an address:
  \<open>t.to_string()\<close> and \<open>t(*args, **kwargs)\<close>. \<open>to_string\<close> calls nothing outside the
  class and assigns nothing, so the heap after it is the heap before it; after a call the
  heap is the one \<open>Tool.__call__\<close> returns.
\<close>

datatype op = Render | Invoke "pyval list" kwargs

datatype outcome = Rendered "exn + string" | Returned "exn + pyval"

definition perform :: "(nat \<Rightarrow> pyfunc) \<Rightarrow> Tool \<Rightarrow> op \<Rightarrow> heap \<Rightarrow> outcome \<times> heap" where
  "perform env self oper h =
     (case oper of
        Render \<Rightarrow> (Rendered (to_string self), h)
      | Invoke args kw \<Rightarrow>
          (case Tool_call env self args kw h of (r, h') \<Rightarrow> (Returned r, h')))"

fun run :: "(nat \<Rightarrow> pyfunc) \<Rightarrow> nat \<Rightarrow> op list \<Rightarrow> heap \<Rightarrow> heap" where
  "run env a [] h = h"
| "run env a (oper # opers) h =
     (case h a of
        None \<Rightarrow> h
      | Some self \<Rightarrow> run env a opers (snd (perform env self oper h)))"

text \<open>A callable that never changes the object stored at address \<open>a\<close>.\<close>

definition leaves_untouched :: "behaviour \<Rightarrow> nat \<Rightarrow> bool" where
  "leaves_untouched b a = (\<forall>args kw h. snd (b args kw h) a = h a)"

section \<open>Example functions\<close>

text \<open>
  Binding of a call's arguments to parameters that are all positional-or-keyword and have
  no default: too many positional arguments, a keyword that names no remaining parameter
  (unknown, or already bound by position) and a parameter left without a value each raise
  \<open>TypeError\<close>.
\<close>

fun lookup_all :: "kwargs \<Rightarrow> string list \<Rightarrow> exn + pyval list" where
  "lookup_all kw [] = Inr []"
| "lookup_all kw (p # ps) =
     (case map_of kw p of
        None \<Rightarrow> Inl TypeError
      | Some v \<Rightarrow>
          (case lookup_all kw ps of
             Inl e \<Rightarrow> Inl e
           | Inr vs \<Rightarrow> Inr (v # vs)))"

definition bind_params :: "string list \<Rightarrow> pyval list \<Rightarrow> kwargs \<Rightarrow> exn + pyval list" where
  "bind_params ps args kw =
     (if length ps < length args then Inl TypeError
      else if list_ex (\<lambda>k. k \<notin> set (drop (length args) ps)) (map fst kw) then Inl TypeError
      else (case lookup_all kw (drop (length args) ps) of
              Inl e \<Rightarrow> Inl e
            | Inr vs \<Rightarrow> Inr (args @ vs)))"

text \<open>
  \<open>a * b\<close>: the product of two integers (booleans count as 0 and 1), the repetition of a
  string, tuple or list by an integer, \<open>TypeError\<close> otherwise. A repetition count that
  is no index (outside the range of \<open>ssize_t\<close>) raises \<open>OverflowError\<close>; a result longer
  than the largest index raises \<open>OverflowError\<close> for a string and \<open>MemoryError\<close> for a
  tuple or a list.
\<close>

definition ssize_t_max :: int where
  "ssize_t_max = 2 ^ 63 - 1"

definition is_index :: "int \<Rightarrow> bool" where
  "is_index n = (- ssize_t_max - 1 \<le> n \<and> n \<le> ssize_t_max)"

definition too_long :: "'a list \<Rightarrow> int \<Rightarrow> bool" where
  "too_long xs n = (0 < n \<and> ssize_t_max < int (length xs) * n)"

fun as_int :: "pyval \<Rightarrow> int option" where
  "as_int (VInt i) = Some i"
| "as_int (VBool b) = Some (if b then 1 else 0)"
| "as_int v = None"

definition repeat :: "int \<Rightarrow> 'a list \<Rightarrow> 'a list" where
  "repeat n xs = concat (replicate (nat n) xs)"

fun seq_repeat :: "pyval \<Rightarrow> int \<Rightarrow> exn + pyval" where
  "seq_repeat (VStr s) n =
     (if \<not> is_index n then Inl OverflowError
      else if too_long s n then Inl OverflowError
      else Inr (VStr (repeat n s)))"
| "seq_repeat (VTuple xs) n =
     (if \<not> is_index n then Inl OverflowError
      else if too_long xs n then Inl MemoryError
      else Inr (VTuple (repeat n xs)))"
| "seq_repeat (VList xs) n =
     (if \<not> is_index n then Inl OverflowError
      else if too_long xs n then Inl MemoryError
      else Inr (VList (repeat n xs)))"
| "seq_repeat v n = Inl TypeError"

definition py_mul :: "pyval \<Rightarrow> pyval \<Rightarrow> exn + pyval" where
  "py_mul a b =
     (case (as_int a, as_int b) of
        (Some i, Some j) \<Rightarrow> Inr (VInt (i * j))
      | (Some i, None) \<Rightarrow> seq_repeat b i
      | (None, Some j) \<Rightarrow> seq_repeat a j
      | (None, None) \<Rightarrow> Inl TypeError)"

definition int_class :: annotation where
  "int_class = Obj (Some ''int'') (''<class '' @ [CHR 0x27] @ ''int'' @ [CHR 0x27] @ ''>'')"

text \<open>
  The notebook's example:
  \<^verbatim>\<open>
  def calculator(a: int, b: int) -> int:
      """Multiply two integers."""
      return a * b
  \<close>
\<close>

definition calculator_body :: behaviour where
  "calculator_body args kw h =
     (case bind_params [''a'', ''b''] args kw of
        Inl e \<Rightarrow> (Inl e, h)
      | Inr [a, b] \<Rightarrow> (py_mul a b, h)
      | Inr _ \<Rightarrow> (Inl TypeError, h))"

definition calculator :: pyfunc where
  "calculator =
     \<lparr> f_name = Some ''calculator'',
       f_doc = Some ''Multiply two integers.'',
       f_signature = Inr \<lparr> parameters = [(''a'', int_class), (''b'', int_class)],
                            return_annotation = int_class \<rparr>,
       f_call = calculator_body \<rparr>"

text \<open>The same function under the name \<open>multiply\<close>.\<close>

definition multiply :: pyfunc where
  "multiply = calculator \<lparr> f_name := Some ''multiply'' \<rparr>"

text \<open>
  \<^verbatim>\<open>
  def f():
      pass
  \<close>
\<close>

definition f_body :: behaviour where
  "f_body args kw h =
     (case bind_params [] args kw of
        Inl e \<Rightarrow> (Inl e, h)
      | Inr _ \<Rightarrow> (Inr VNone, h))"

definition f_example :: pyfunc where
  "f_example = \<lparr> f_name = Some ''f'', f_doc = None,
         f_signature = Inr \<lparr> parameters = [], return_annotation = Empty \<rparr>,
         f_call = f_body \<rparr>"

text \<open>
  \<^verbatim>\<open>
  def identity(self):
      return self
  \<close>
\<close>

definition identity_body :: behaviour where
  "identity_body args kw h =
     (case bind_params [''self''] args kw of
        Inl e \<Rightarrow> (Inl e, h)
      | Inr [v] \<Rightarrow> (Inr v, h)
      | Inr _ \<Rightarrow> (Inl TypeError, h))"

definition identity :: pyfunc where
  "identity = \<lparr> f_name = Some ''identity'', f_doc = None,
                f_signature = Inr \<lparr> parameters = [(''self'', Empty)], return_annotation = Empty \<rparr>,
                f_call = identity_body \<rparr>"

text \<open>
  A function that writes to the \<open>Tool\<close> made from it. After the decoration the global
  name \<open>rename\<close> is bound to that \<open>Tool\<close>, here the object at address 0:
  \<^verbatim>\<open>
  @tool
  def rename():
      rename.name = "changed"
  \<close>
\<close>

definition rename_body :: behaviour where
  "rename_body args kw h =
     (case bind_params [] args kw of
        Inl e \<Rightarrow> (Inl e, h)
      | Inr _ \<Rightarrow>
          (Inr VNone,
           (case h 0 of
              None \<Rightarrow> h
            | Some t \<Rightarrow> h(0 \<mapsto> t \<lparr> name := VStr ''changed'' \<rparr>))))"

definition rename :: pyfunc where
  "rename = \<lparr> f_name = Some ''rename'', f_doc = None,
              f_signature = Inr \<lparr> parameters = [], return_annotation = Empty \<rparr>,
              f_call = rename_body \<rparr>"

text \<open>
  \<^verbatim>\<open>
  def fail():
      raise RuntimeError("boom")
  \<close>
\<close>

definition fail_body :: behaviour where
  "fail_body args kw h =
     (case bind_params [] args kw of
        Inl e \<Rightarrow> (Inl e, h)
      | Inr _ \<Rightarrow> (Inl (Raised ''RuntimeError: boom''), h))"

definition fail :: pyfunc where
  "fail = \<lparr> f_name = Some ''fail'', f_doc = None,
            f_signature = Inr \<lparr> parameters = [], return_annotation = Empty \<rparr>,
            f_call = fail_body \<rparr>"

text \<open>
  A function with a parameterised annotation, whose \<open>__name__\<close> is \<open>list\<close> and whose
  text is \<open>list[int]\<close>, and a string annotation, which has no \<open>__name__\<close>:
  \<^verbatim>\<open>
  def total(xs: list[int], unit: "str") -> list[int]:
      """Add up."""
      return xs
  \<close>
\<close>

definition total_body :: behaviour where
  "total_body args kw h =
     (case bind_params [''xs'', ''unit''] args kw of
        Inl e \<Rightarrow> (Inl e, h)
      | Inr [xs, unit] \<Rightarrow> (Inr xs, h)
      | Inr _ \<Rightarrow> (Inl TypeError, h))"

definition total :: pyfunc where
  "total =
     \<lparr> f_name = Some ''total'',
       f_doc = Some ''Add up.'',
       f_signature = Inr \<lparr> parameters = [(''xs'', Obj (Some ''list'') ''list[int]''),
                                          (''unit'', Obj None ''str'')],
                            return_annotation = Obj (Some ''list'') ''list[int]'' \<rparr>,
       f_call = total_body \<rparr>"

text \<open>
  A callable that \<open>inspect.signature\<close> cannot introspect (it raises \<open>ValueError\<close>), and
  the function objects of the examples by identity.
\<close>

definition opaque :: pyfunc where
  "opaque = \<lparr> f_name = Some ''opaque'', f_doc = None, f_signature = Inl ValueError,
              f_call = (\<lambda>args kw h. (Inr VNone, h)) \<rparr>"

definition example_env :: "nat \<Rightarrow> pyfunc" where
  "example_env i =
     (if i = 0 then calculator
      else if i = 1 then multiply
      else if i = 2 then f_example
      else if i = 3 then identity
      else if i = 4 then rename
      else if i = 5 then fail
      else if i = 7 then total
      else opaque)"

text \<open>The \<open>Tool\<close> objects that \<open>tool\<close> makes of these functions.\<close>

definition multiply_tool :: Tool where
  "multiply_tool =
     Tool_init (VStr ''multiply'') (VStr ''Multiply two integers.'') (Fun 1)
       (VList [VTuple [VStr ''a'', VStr ''int''], VTuple [VStr ''b'', VStr ''int'']])
       (VStr ''int'')"

definition identity_tool :: Tool where
  "identity_tool =
     Tool_init (VStr ''identity'') (VStr ''No description provided.'') (Fun 3)
       (VList [VTuple [VStr ''self'', VStr ''_empty'']]) (VStr ''No return annotation'')"

definition rename_tool :: Tool where
  "rename_tool =
     Tool_init (VStr ''rename'') (VStr ''No description provided.'') (Fun 4)
       (VList []) (VStr ''No return annotation'')"

definition total_tool :: Tool where
  "total_tool =
     Tool_init (VStr ''total'') (VStr ''Add up.'') (Fun 7)
       (VList [VTuple [VStr ''xs'', VStr ''list''], VTuple [VStr ''unit'', VStr ''str'']])
       (VStr ''list'')"

definition fail_tool :: Tool where
  "fail_tool =
     Tool_init (VStr ''fail'') (VStr ''No description provided.'') (Fun 5)
       (VList []) (VStr ''No return annotation'')"

text \<open>
  A \<open>Tool\<close> built directly, with a description of two lines:
  \<^verbatim>\<open>
  Tool("lookup", "Look up a word.\nReturns its definition.", None, [("word", "str")], "str")
  \<close>
\<close>

definition two_line_tool :: Tool where
  "two_line_tool =
     Tool_init (VStr ''lookup'')
       (VStr (''Look up a word.'' @ [CHR 0x0A] @ ''Returns its definition.''))
       (Val VNone) (VList [VTuple [VStr ''word'', VStr ''str'']]) (VStr ''str'')"

section \<open>Lines\<close>

text \<open>A string is a single line when it holds no line feed.\<close>

definition single_line :: "string \<Rightarrow> bool" where
  "single_line s = (CHR 0x0A \<notin> set s)"

section \<open>Auxiliary facts\<close>

lemma collect_arguments_append:
  "collect_arguments ps acc =
     acc @ map (\<lambda>(p, a). VTuple [VStr p, VStr (annotation_name a)]) ps"
  by (induction ps acc rule: collect_arguments.induct) simp_all

lemma tool_function:
  assumes "f_signature (env i) = Inr sg" and "f_name (env i) = Some n"
  shows "tool env (Fun i) =
     Inr \<lparr> name = VStr n,
           description = VStr (case f_doc (env i) of
                                 None \<Rightarrow> ''No description provided.''
                               | Some d \<Rightarrow> if d = [] then ''No description provided.'' else d),
           func = Fun i,
           arguments = VList (map (\<lambda>(p, a). VTuple [VStr p, VStr (annotation_name a)])
                                (parameters sg)),
           outputs = VStr (if return_annotation sg = Empty then ''No return annotation''
                           else annotation_name (return_annotation sg)) \<rparr>"
  using assms by (simp add: tool_def Tool_init_def collect_arguments_append)

lemma tool_raises:
  assumes "tool env (Fun i) = Inl e"
  shows "f_signature (env i) = Inl e \<or> (f_name (env i) = None \<and> e = AttributeError)"
  using assms by (auto simp: tool_def Let_def split: sum.splits option.splits)

lemma format_arguments_map:
  "format_arguments (map (\<lambda>x. VTuple [VStr (g x), VStr (k x)]) xs) =
     Inr (map (\<lambda>x. g x @ '': '' @ k x) xs)"
  by (induction xs) (simp_all add: unpack2_def)

lemma to_string_strs:
  assumes "name t = VStr n" and "description t = VStr d"
    and "arguments t = VList (map (\<lambda>x. VTuple [VStr (g x), VStr (k x)]) xs)"
    and "outputs t = VStr out"
  shows "to_string t =
     Inr (''Tool Name: '' @ n @ '', Description: '' @ d @ '', Arguments: '' @
          join '', '' (map (\<lambda>x. g x @ '': '' @ k x) xs) @ '', Outputs: '' @ out)"
  using assms by (simp add: to_string_def format_arguments_map)

lemma single_line_append: "single_line (xs @ ys) = (single_line xs \<and> single_line ys)"
  by (auto simp: single_line_def)

lemma single_line_join:
  "single_line sep \<Longrightarrow> single_line (join sep xs) = list_all single_line xs"
  by (induction sep xs rule: join.induct) (auto simp: single_line_def)

lemma tool_then_to_string:
  fixes env :: "nat \<Rightarrow> pyfunc"
  assumes "f_signature (env i) = Inr sg" and "f_name (env i) = Some n"
    and "f_doc (env i) = Some d" and "d \<noteq> []" and "return_annotation sg \<noteq> Empty"
  shows "\<exists>t. tool env (Fun i) = Inr t \<and>
           to_string t =
             Inr (''Tool Name: '' @ n @ '', Description: '' @ d @ '', Arguments: '' @
                  join '', '' (map (\<lambda>(p, a). p @ '': '' @ annotation_name a) (parameters sg)) @
                  '', Outputs: '' @ annotation_name (return_annotation sg))"
proof -
  let ?t = "\<lparr> name = VStr n, description = VStr d, func = Fun i,
             arguments = VList (map (\<lambda>(p, a). VTuple [VStr p, VStr (annotation_name a)])
                                  (parameters sg)),
             outputs = VStr (annotation_name (return_annotation sg)) \<rparr>"
  from assms have "tool env (Fun i) = Inr ?t"
    by (simp add: tool_function)
  moreover have "to_string ?t =
      Inr (''Tool Name: '' @ n @ '', Description: '' @ d @ '', Arguments: '' @
           join '', '' (map (\<lambda>(p, a). p @ '': '' @ annotation_name a) (parameters sg)) @
           '', Outputs: '' @ annotation_name (return_annotation sg))"
    using to_string_strs [of ?t n d fst "\<lambda>x. annotation_name (snd x)" "parameters sg"
        "annotation_name (return_annotation sg)"]
    by (simp add: split_def)
  ultimately show ?thesis
    by blast
qed

lemma multiply_facts:
  "f_signature (example_env 1) =
     Inr \<lparr> parameters = [(''a'', int_class), (''b'', int_class)], return_annotation = int_class \<rparr>"
  "f_name (example_env 1) = Some ''multiply''"
  "f_doc (example_env 1) = Some ''Multiply two integers.''"
  by (simp_all add: example_env_def multiply_def calculator_def)

lemma calculator_facts:
  "f_signature (example_env 0) =
     Inr \<lparr> parameters = [(''a'', int_class), (''b'', int_class)], return_annotation = int_class \<rparr>"
  "f_name (example_env 0) = Some ''calculator''"
  "f_doc (example_env 0) = Some ''Multiply two integers.''"
  by (simp_all add: example_env_def calculator_def)

lemma int_class_simps [simp]:
  "int_class \<noteq> Empty" "annotation_name int_class = ''int''"
  by (simp_all add: int_class_def annotation_name_def)

lemma f_example_facts:
  "f_signature (example_env 2) = Inr \<lparr> parameters = [], return_annotation = Empty \<rparr>"
  "f_name (example_env 2) = Some ''f''"
  "f_doc (example_env 2) = None"
  by (simp_all add: example_env_def f_example_def)

lemma identity_facts:
  "f_signature (example_env 3) =
     Inr \<lparr> parameters = [(''self'', Empty)], return_annotation = Empty \<rparr>"
  "f_name (example_env 3) = Some ''identity''"
  "f_doc (example_env 3) = None"
  by (simp_all add: example_env_def identity_def)

lemma single_line_literals [simp]:
  "single_line []" "single_line (c # cs) = (c \<noteq> CHR 0x0A \<and> single_line cs)"
  by (auto simp: single_line_def)

lemma example_tools:
  "tool example_env (Fun 1) = Inr multiply_tool"
  "tool example_env (Fun 3) = Inr identity_tool"
  "tool example_env (Fun 4) = Inr rename_tool"
  "tool example_env (Fun 5) = Inr fail_tool"
  by (simp_all add: tool_def example_env_def multiply_def calculator_def identity_def
      rename_def fail_def multiply_tool_def identity_tool_def rename_tool_def fail_tool_def
      annotation_name_def int_class_def)

lemma Tool_call_function:
  assumes "''self'' \<notin> set (map fst kw)" and "func t = Fun i"
  shows "Tool_call env t args kw h = f_call (env i) args kw h"
  using assms by (simp add: Tool_call_def call_object_def)

lemma perform_frame:
  fixes h :: heap
  assumes "h a = Some self"
    and "\<forall>i. func self = Fun i \<longrightarrow> leaves_untouched (f_call (env i)) a"
  shows "snd (perform env self oper h) a = Some self"
proof (cases oper)
  case Render
  with assms show ?thesis
    by (simp add: perform_def)
next
  case (Invoke args kw)
  show ?thesis
  proof (cases "func self")
    case (Val v)
    with Invoke assms show ?thesis
      by (simp add: perform_def Tool_call_def call_object_def)
  next
    case (Fun i)
    with assms have "snd (f_call (env i) args kw h) a = h a"
      by (simp add: leaves_untouched_def)
    with Invoke Fun assms show ?thesis
      by (simp add: perform_def Tool_call_def call_object_def case_prod_beta)
  qed
qed

lemma run_frame:
  fixes h :: heap
  assumes "\<forall>i. func self = Fun i \<longrightarrow> leaves_untouched (f_call (env i)) a"
  shows "h a = Some self \<Longrightarrow> run env a opers h a = Some self"
proof (induction opers arbitrary: h)
  case Nil
  then show ?case by simp
next
  case (Cons oper opers)
  from Cons.prems assms have "snd (perform env self oper h) a = Some self"
    by (rule perform_frame)
  then have "run env a opers (snd (perform env self oper h)) a = Some self"
    by (rule Cons.IH)
  with Cons.prems show ?case
    by simp
qed

lemma calculator_body_heap: "snd (calculator_body args kw h) = h"
  by (simp add: calculator_body_def split: sum.splits list.splits)

lemma total_facts:
  "f_signature (example_env 7) =
     Inr \<lparr> parameters = [(''xs'', Obj (Some ''list'') ''list[int]''), (''unit'', Obj None ''str'')],
           return_annotation = Obj (Some ''list'') ''list[int]'' \<rparr>"
  "f_name (example_env 7) = Some ''total''"
  "f_doc (example_env 7) = Some ''Add up.''"
  by (simp_all add: example_env_def total_def)

section \<open>Round trip through the decorator\<close>

text \<open>
  C1, as amended. For every function object with a name, a readable signature, a
  non-empty documentation string, annotated parameters and a return annotation, \<open>tool\<close>
  returns a \<open>Tool\<close>, and \<open>to_string\<close> of it is the fixed form filled with the
  function's name and its documentation string as they are, and its parameters in
  declaration order, each identifier as it is. A declared type, of a parameter or of the
  return value, is rendered as its \<open>__name__\<close> when it has one and as its full text
  otherwise. For \<open>multiply(a: int, b: int) -> int\<close> documented
  \<open>Multiply two integers.\<close> the rendering is the string of the scenario.
\<close>

theorem tool_to_string_round_trip:
  "(\<forall>env i sg n d ps rshort rfull.
      f_signature (env i) = Inr sg \<and> f_name (env i) = Some n \<and>
      f_doc (env i) = Some d \<and> d \<noteq> [] \<and>
      parameters sg = map (\<lambda>(p, short, full). (p, Obj short full)) ps \<and>
      return_annotation sg = Obj rshort rfull \<longrightarrow>
      (\<exists>t. tool env (Fun i) = Inr t \<and>
           to_string t =
             Inr (''Tool Name: '' @ n @ '', Description: '' @ d @ '', Arguments: '' @
                  join '', '' (map (\<lambda>(p, short, full).
                                    p @ '': '' @ (case short of Some s \<Rightarrow> s | None \<Rightarrow> full)) ps) @
                  '', Outputs: '' @ (case rshort of Some s \<Rightarrow> s | None \<Rightarrow> rfull)))) \<and>
   (\<exists>t. tool example_env (Fun 1) = Inr t \<and>
        to_string t =
          Inr ''Tool Name: multiply, Description: Multiply two integers., Arguments: a: int, b: int, Outputs: int'')"
proof (intro conjI allI impI)
  fix env :: "nat \<Rightarrow> pyfunc" and i :: nat and sg n d
    and ps :: "(string \<times> string option \<times> string) list" and rshort rfull
  assume h: "f_signature (env i) = Inr sg \<and> f_name (env i) = Some n \<and>
      f_doc (env i) = Some d \<and> d \<noteq> [] \<and>
      parameters sg = map (\<lambda>(p, short, full). (p, Obj short full)) ps \<and>
      return_annotation sg = Obj rshort rfull"
  have label: "annotation_name (Obj short full) = (case short of Some s \<Rightarrow> s | None \<Rightarrow> full)"
    for short full
    by (cases short) (simp_all add: annotation_name_def)
  from h have "return_annotation sg \<noteq> Empty"
    by simp
  with h obtain t where t: "tool env (Fun i) = Inr t"
    "to_string t =
       Inr (''Tool Name: '' @ n @ '', Description: '' @ d @ '', Arguments: '' @
            join '', '' (map (\<lambda>(p, a). p @ '': '' @ annotation_name a) (parameters sg)) @
            '', Outputs: '' @ annotation_name (return_annotation sg))"
    using tool_then_to_string [of env i sg n d] by blast
  from h have ps: "parameters sg = map (\<lambda>(p, short, full). (p, Obj short full)) ps"
    and r: "return_annotation sg = Obj rshort rfull"
    by simp_all
  have m: "map (\<lambda>(p, a). p @ '': '' @ annotation_name a) (parameters sg) =
      map (\<lambda>(p, short, full). p @ '': '' @ (case short of Some s \<Rightarrow> s | None \<Rightarrow> full)) ps"
    unfolding ps by (simp add: split_def label)
  have out: "annotation_name (return_annotation sg) =
      (case rshort of Some s \<Rightarrow> s | None \<Rightarrow> rfull)"
    unfolding r by (rule label)
  from t(1) t(2) [unfolded m out]
  show "\<exists>t. tool env (Fun i) = Inr t \<and>
           to_string t =
             Inr (''Tool Name: '' @ n @ '', Description: '' @ d @ '', Arguments: '' @
                  join '', '' (map (\<lambda>(p, short, full).
                                    p @ '': '' @ (case short of Some s \<Rightarrow> s | None \<Rightarrow> full)) ps) @
                  '', Outputs: '' @ (case rshort of Some s \<Rightarrow> s | None \<Rightarrow> rfull))"
    by blast
next
  show "\<exists>t. tool example_env (Fun 1) = Inr t \<and>
        to_string t =
          Inr ''Tool Name: multiply, Description: Multiply two integers., Arguments: a: int, b: int, Outputs: int''"
    using tool_then_to_string [of example_env 1, OF multiply_facts] by simp
qed

theorem tool_to_string_round_trip_witness:
  "f_signature (example_env 7) =
     Inr \<lparr> parameters = [(''xs'', Obj (Some ''list'') ''list[int]''), (''unit'', Obj None ''str'')],
           return_annotation = Obj (Some ''list'') ''list[int]'' \<rparr> \<and>
   f_name (example_env 7) = Some ''total'' \<and>
   f_doc (example_env 7) = Some ''Add up.'' \<and>
   tool example_env (Fun 7) = Inr total_tool \<and>
   to_string total_tool =
     Inr ''Tool Name: total, Description: Add up., Arguments: xs: list, unit: str, Outputs: list''"
proof -
  have made: "tool example_env (Fun 7) = Inr total_tool"
    by (simp add: tool_def example_env_def total_def total_tool_def annotation_name_def)
  have "\<exists>t. tool example_env (Fun 7) = Inr t \<and>
      to_string t =
        Inr ''Tool Name: total, Description: Add up., Arguments: xs: list, unit: str, Outputs: list''"
    using tool_to_string_round_trip [THEN conjunct1, rule_format, of example_env 7
      "\<lparr> parameters = [(''xs'', Obj (Some ''list'') ''list[int]''), (''unit'', Obj None ''str'')],
         return_annotation = Obj (Some ''list'') ''list[int]'' \<rparr>" "''total''" "''Add up.''"
      "[(''xs'', Some ''list'', ''list[int]''), (''unit'', None, ''str'')]" "Some ''list''" "''list[int]''"]
    by (simp add: total_facts)
  with made have "to_string total_tool =
      Inr ''Tool Name: total, Description: Add up., Arguments: xs: list, unit: str, Outputs: list''"
    by simp
  with made show ?thesis
    by (simp add: total_facts)
qed

text \<open>
  C1 as stated fails: a declared type is not always reproduced in full. The annotation
  \<open>list[int]\<close> has the \<open>__name__\<close> \<open>list\<close>, so \<open>total\<close> renders with \<open>xs: list\<close> and
  \<open>Outputs: list\<close>, and the text \<open>list[int]\<close> occurs nowhere in the rendering.
\<close>

theorem to_string_drops_type_parameters:
  "tool example_env (Fun 7) = Inr total_tool \<and>
   to_string total_tool =
     Inr ''Tool Name: total, Description: Add up., Arguments: xs: list, unit: str, Outputs: list'' \<and>
   \<not> sublist ''list[int]''
       ''Tool Name: total, Description: Add up., Arguments: xs: list, unit: str, Outputs: list''"
proof -
  have "tool example_env (Fun 7) = Inr total_tool"
    by (simp add: tool_def example_env_def total_def total_tool_def annotation_name_def)
  moreover have "to_string total_tool =
     Inr ''Tool Name: total, Description: Add up., Arguments: xs: list, unit: str, Outputs: list''"
    by (simp add: total_tool_def Tool_init_def to_string_def unpack2_def)
  moreover have "\<not> sublist ''list[int]''
       ''Tool Name: total, Description: Add up., Arguments: xs: list, unit: str, Outputs: list''"
    by code_simp
  ultimately show ?thesis by blast
qed

section \<open>Rendering\<close>

text \<open>
  C2, as amended. For every \<open>Tool\<close> whose name, description and output label are
  strings and whose arguments are a list of pairs of strings, \<open>to_string\<close> returns
  exactly \<open>Tool Name: {name}, Description: {description}, Arguments: {a1}: {t1}, ...,
  Outputs: {outputs}\<close>, the pairs joined by a comma and a space; with no parameters
  the segment is empty and the label \<open>Arguments: \<close> is still there. The result is a
  single line exactly when the name, the description, every argument name and type and
  the output label are; the zero-parameter, undocumented function \<open>f\<close> with no return
  annotation renders as the string of the scenario.
\<close>

theorem to_string_fixed_form:
  "(\<forall>t n d ps out.
      name t = VStr n \<and> description t = VStr d \<and>
      arguments t = VList (map (\<lambda>(a, ty). VTuple [VStr a, VStr ty]) ps) \<and>
      outputs t = VStr out \<longrightarrow>
      (\<exists>s. to_string t = Inr s \<and>
           s = ''Tool Name: '' @ n @ '', Description: '' @ d @ '', Arguments: '' @
               join '', '' (map (\<lambda>(a, ty). a @ '': '' @ ty) ps) @ '', Outputs: '' @ out \<and>
           (ps = [] \<longrightarrow>
              s = ''Tool Name: '' @ n @ '', Description: '' @ d @ '', Arguments: , Outputs: '' @ out) \<and>
           (single_line s \<longleftrightarrow>
              single_line n \<and> single_line d \<and>
              list_all (\<lambda>(a, ty). single_line a \<and> single_line ty) ps \<and> single_line out))) \<and>
   (\<exists>t. tool example_env (Fun 2) = Inr t \<and>
        to_string t =
          Inr ''Tool Name: f, Description: No description provided., Arguments: , Outputs: No return annotation'')"
proof (intro conjI allI impI)
  fix t :: Tool and n d and ps :: "(string \<times> string) list" and out
  assume h: "name t = VStr n \<and> description t = VStr d \<and>
      arguments t = VList (map (\<lambda>(a, ty). VTuple [VStr a, VStr ty]) ps) \<and>
      outputs t = VStr out"
  let ?s = "''Tool Name: '' @ n @ '', Description: '' @ d @ '', Arguments: '' @
      join '', '' (map (\<lambda>(a, ty). a @ '': '' @ ty) ps) @ '', Outputs: '' @ out"
  have "to_string t = Inr ?s"
    using h to_string_strs [of t n d fst snd ps out] by (simp add: split_def)
  moreover have "ps = [] \<longrightarrow>
      ?s = ''Tool Name: '' @ n @ '', Description: '' @ d @ '', Arguments: , Outputs: '' @ out"
    by simp
  moreover have "list_all single_line (map (\<lambda>(a, ty). a @ '': '' @ ty) ps) =
      list_all (\<lambda>(a, ty). single_line a \<and> single_line ty) ps"
    by (induction ps) (auto simp: single_line_append)
  then have "single_line ?s \<longleftrightarrow>
      single_line n \<and> single_line d \<and>
      list_all (\<lambda>(a, ty). single_line a \<and> single_line ty) ps \<and> single_line out"
    by (simp add: single_line_append single_line_join)
  ultimately show "\<exists>s. to_string t = Inr s \<and>
           s = ''Tool Name: '' @ n @ '', Description: '' @ d @ '', Arguments: '' @
               join '', '' (map (\<lambda>(a, ty). a @ '': '' @ ty) ps) @ '', Outputs: '' @ out \<and>
           (ps = [] \<longrightarrow>
              s = ''Tool Name: '' @ n @ '', Description: '' @ d @ '', Arguments: , Outputs: '' @ out) \<and>
           (single_line s \<longleftrightarrow>
              single_line n \<and> single_line d \<and>
              list_all (\<lambda>(a, ty). single_line a \<and> single_line ty) ps \<and> single_line out)"
    by blast
next
  show "\<exists>t. tool example_env (Fun 2) = Inr t \<and>
        to_string t =
          Inr ''Tool Name: f, Description: No description provided., Arguments: , Outputs: No return annotation''"
    using tool_function [of example_env 2, OF f_example_facts(1,2)]
    by (simp add: f_example_facts to_string_def)
qed

theorem to_string_fixed_form_witness:
  "to_string two_line_tool =
     Inr (''Tool Name: lookup, Description: Look up a word.'' @ [CHR 0x0A] @
          ''Returns its definition., Arguments: word: str, Outputs: str'') \<and>
   to_string (Tool_init (VStr ''f'') (VStr ''No description provided.'') (Fun 2) (VList [])
                (VStr ''No return annotation'')) =
     Inr ''Tool Name: f, Description: No description provided., Arguments: , Outputs: No return annotation''"
  using to_string_fixed_form [THEN conjunct1, rule_format, of two_line_tool "''lookup''"
      "''Look up a word.'' @ [CHR 0x0A] @ ''Returns its definition.''" "[(''word'', ''str'')]" "''str''"]
    to_string_fixed_form [THEN conjunct1, rule_format, of
      "Tool_init (VStr ''f'') (VStr ''No description provided.'') (Fun 2) (VList [])
                (VStr ''No return annotation'')" "''f''" "''No description provided.''" "[]"
      "''No return annotation''"]
  by (simp add: two_line_tool_def Tool_init_def)

text \<open>
  C2 as stated fails: the fixed form copies the fields as they are, so a description of
  two lines gives a rendering of two lines.
\<close>

theorem to_string_two_lines:
  "to_string two_line_tool =
     Inr (''Tool Name: lookup, Description: Look up a word.'' @ [CHR 0x0A] @
          ''Returns its definition., Arguments: word: str, Outputs: str'') \<and>
   \<not> single_line (''Tool Name: lookup, Description: Look up a word.'' @ [CHR 0x0A] @
          ''Returns its definition., Arguments: word: str, Outputs: str'')"
  by (simp add: two_line_tool_def Tool_init_def to_string_def unpack2_def)


text \<open>
  Fields that are not strings are rendered as \<open>str\<close> renders them, and a string among
  the arguments unpacks into its characters. \<open>to_string\<close> raises \<open>ValueError\<close> when an
  item of the arguments does not unpack into exactly two values, and \<open>TypeError\<close> when
  the arguments, or an item of them, cannot be iterated.
\<close>

theorem to_string_other_values:
  "to_string (Tool_init (VInt 5) VNone (Val VNone) (VList [VStr ''ab'', VTuple [VInt 1, VStr ''x'']])
     (VTuple [])) = Inr ''Tool Name: 5, Description: None, Arguments: a: b, 1: x, Outputs: ()'' \<and>
   to_string (Tool_init (VInt (- 120)) (VBool True) (Val VNone) (VList [])
     (VList [VStr ''a'', VTuple [VBool True]])) =
     Inr (''Tool Name: -120, Description: True, Arguments: , Outputs: ['' @ [CHR 0x27] @ ''a'' @
          [CHR 0x27] @ '', (True,)]'') \<and>
   to_string (Tool_init (VInt 5) VNone (Val VNone) (VList [VStr ''abc'']) (VTuple [])) =
     Inl ValueError \<and>
   to_string (Tool_init (VInt 5) VNone (Val VNone) (VInt 3) (VTuple [])) = Inl TypeError \<and>
   to_string (Tool_init (VInt 5) VNone (Val VNone) (VList [VInt 5]) (VTuple [])) = Inl TypeError"
  by code_simp

section \<open>What the decorator derives\<close>

text \<open>
  C4. For a function whose signature lists N parameters, the arguments of the \<open>Tool\<close>
  are a list of N items, and the item at each position is a pair whose first component
  is the identifier of the parameter declared at that position.
\<close>

theorem tool_arguments_length_order:
  fixes env :: "nat \<Rightarrow> pyfunc"
  assumes "f_signature (env i) = Inr sg" and "f_name (env i) = Some n"
  shows "\<exists>t items. tool env (Fun i) = Inr t \<and> arguments t = VList items \<and>
           length items = length (parameters sg) \<and>
           (\<forall>j < length (parameters sg).
              \<exists>label. items ! j = VTuple [VStr (fst (parameters sg ! j)), VStr label])"
proof -
  let ?items = "map (\<lambda>(p, a). VTuple [VStr p, VStr (annotation_name a)]) (parameters sg)"
  have "\<forall>j < length (parameters sg).
      \<exists>label. ?items ! j = VTuple [VStr (fst (parameters sg ! j)), VStr label]"
    by (simp add: split_def)
  then show ?thesis
    using tool_function [of env i, OF assms] by simp
qed

theorem tool_arguments_length_order_witness:
  "\<exists>t items. tool example_env (Fun 0) = Inr t \<and> arguments t = VList items \<and>
     length items = 2 \<and>
     (\<exists>label. items ! 0 = VTuple [VStr ''a'', VStr label]) \<and>
     (\<exists>label. items ! 1 = VTuple [VStr ''b'', VStr label])"
proof -
  from tool_arguments_length_order [of example_env 0, OF calculator_facts(1,2)]
  obtain t items where t: "tool example_env (Fun 0) = Inr t" "arguments t = VList items"
    "length items = 2"
    and all: "\<forall>j < 2. \<exists>label. items ! j =
      VTuple [VStr (fst ([(''a'', int_class), (''b'', int_class)] ! j)), VStr label]"
    by auto
  from all [rule_format, of 0] have "\<exists>label. items ! 0 = VTuple [VStr ''a'', VStr label]"
    by simp
  moreover from all [rule_format, of 1] have "\<exists>label. items ! 1 = VTuple [VStr ''b'', VStr label]"
    by simp
  ultimately show ?thesis
    using t by blast
qed

text \<open>
  C5. When the function declares no return type (the return annotation is
  \<open>inspect._empty\<close>) the output label is \<open>No return annotation\<close>; otherwise it is the
  \<open>__name__\<close> of the annotation when it has one, and its \<open>str\<close> when it has none.
\<close>

theorem tool_outputs:
  fixes env :: "nat \<Rightarrow> pyfunc"
  assumes "f_signature (env i) = Inr sg" and "f_name (env i) = Some n"
  shows "\<exists>t. tool env (Fun i) = Inr t \<and>
           (return_annotation sg = Empty \<longrightarrow> outputs t = VStr ''No return annotation'') \<and>
           (\<forall>short s. return_annotation sg = Obj (Some short) s \<longrightarrow> outputs t = VStr short) \<and>
           (\<forall>s. return_annotation sg = Obj None s \<longrightarrow> outputs t = VStr s)"
  using tool_function [of env i, OF assms] by (auto simp: annotation_name_def)

theorem tool_outputs_witness:
  "(\<exists>t. tool example_env (Fun 2) = Inr t \<and> outputs t = VStr ''No return annotation'') \<and>
   (\<exists>t. tool example_env (Fun 0) = Inr t \<and> outputs t = VStr ''int'')"
  using tool_outputs [of example_env 2, OF f_example_facts(1,2)]
    tool_outputs [of example_env 0, OF calculator_facts(1,2)]
  by (auto simp: int_class_def)

text \<open>
  C6. A documentation string that is present and not empty becomes the description as
  it is; when it is absent or empty the description is \<open>No description provided.\<close>.
\<close>

theorem tool_description:
  fixes env :: "nat \<Rightarrow> pyfunc"
  assumes "f_signature (env i) = Inr sg" and "f_name (env i) = Some n"
  shows "\<exists>t. tool env (Fun i) = Inr t \<and>
           (\<forall>d. f_doc (env i) = Some d \<and> d \<noteq> [] \<longrightarrow> description t = VStr d) \<and>
           (f_doc (env i) = None \<or> f_doc (env i) = Some [] \<longrightarrow>
              description t = VStr ''No description provided.'')"
  using tool_function [of env i, OF assms] by auto

theorem tool_description_witness:
  "(\<exists>t. tool example_env (Fun 0) = Inr t \<and> description t = VStr ''Multiply two integers.'') \<and>
   (\<exists>t. tool example_env (Fun 2) = Inr t \<and> description t = VStr ''No description provided.'')"
  using tool_description [of example_env 0, OF calculator_facts(1,2)]
    tool_description [of example_env 2, OF f_example_facts(1,2)]
  by (auto simp: calculator_facts f_example_facts)

text \<open>
  C7. For every function object with a readable signature and a name, whatever its
  annotations and documentation, \<open>tool\<close> returns a \<open>Tool\<close>; a parameter declared
  without a type gets the label \<open>_empty\<close>, the name of the marker class
  \<open>inspect._empty\<close>. When \<open>tool\<close> raises, the error is the one \<open>inspect.signature\<close>
  raised or the \<open>AttributeError\<close> of a missing \<open>__name__\<close>: never one caused by a missing
  annotation or documentation string.
\<close>

theorem tool_total_without_metadata:
  fixes env :: "nat \<Rightarrow> pyfunc"
  shows "(\<forall>sg n. f_signature (env i) = Inr sg \<and> f_name (env i) = Some n \<longrightarrow>
           (\<exists>t. tool env (Fun i) = Inr t \<and>
                arguments t =
                  VList (map (\<lambda>(p, a). VTuple [VStr p,
                                 VStr (if a = Empty then ''_empty'' else annotation_name a)])
                           (parameters sg)))) \<and>
         (\<forall>e. tool env (Fun i) = Inl e \<longrightarrow>
            f_signature (env i) = Inl e \<or> (f_name (env i) = None \<and> e = AttributeError))"
proof (intro conjI allI impI)
  fix sg n
  assume h: "f_signature (env i) = Inr sg \<and> f_name (env i) = Some n"
  have "map (\<lambda>(p, a). VTuple [VStr p, VStr (annotation_name a)]) (parameters sg) =
      map (\<lambda>(p, a). VTuple [VStr p, VStr (if a = Empty then ''_empty'' else annotation_name a)])
        (parameters sg)"
    by (rule map_cong) (auto simp: annotation_name_def)
  then show "\<exists>t. tool env (Fun i) = Inr t \<and>
      arguments t =
        VList (map (\<lambda>(p, a). VTuple [VStr p,
                       VStr (if a = Empty then ''_empty'' else annotation_name a)])
                 (parameters sg))"
    using h tool_function [of env i sg n] by simp
next
  fix e
  assume "tool env (Fun i) = Inl e"
  then show "f_signature (env i) = Inl e \<or> (f_name (env i) = None \<and> e = AttributeError)"
    using tool_raises [of env i e] by simp
qed

theorem tool_total_without_metadata_witness:
  "f_signature (example_env 3) =
     Inr \<lparr> parameters = [(''self'', Empty)], return_annotation = Empty \<rparr> \<and>
   f_name (example_env 3) = Some ''identity'' \<and> f_doc (example_env 3) = None \<and>
   (\<exists>t. tool example_env (Fun 3) = Inr t \<and>
        arguments t = VList [VTuple [VStr ''self'', VStr ''_empty'']]) \<and>
   tool example_env (Fun 6) = Inl ValueError \<and> f_signature (example_env 6) = Inl ValueError"
proof -
  have "tool example_env (Fun 6) = Inl ValueError" "f_signature (example_env 6) = Inl ValueError"
    by (simp_all add: tool_def example_env_def opaque_def)
  then show ?thesis
    using tool_total_without_metadata [of example_env 3, THEN conjunct1, rule_format,
        OF conjI [OF identity_facts(1,2)]]
      tool_total_without_metadata [of example_env 6, THEN conjunct2, rule_format, of ValueError]
    by (simp add: identity_facts)
qed

section \<open>Invocation\<close>

text \<open>
  When no keyword argument is named \<open>self\<close>, calling a \<open>Tool\<close> that wraps a function
  object is calling that function with the same positional and keyword arguments: the
  same value or the same exception, and the same heap afterwards. On the \<open>Tool\<close> made
  from \<open>multiply\<close>, the arguments \<open>(3, 4)\<close> give 12.
\<close>

theorem Tool_call_delegates:
  "''self'' \<notin> set (map fst kw) \<and> func t = Fun i \<longrightarrow>
     Tool_call env t args kw h = f_call (env i) args kw h"
  by (simp add: Tool_call_function)

theorem Tool_call_delegates_witness:
  "tool example_env (Fun 1) = Inr multiply_tool \<and>
   f_call (example_env 1) [VInt 3, VInt 4] [] Map.empty = (Inr (VInt 12), Map.empty) \<and>
   Tool_call example_env multiply_tool [VInt 3, VInt 4] [] Map.empty = (Inr (VInt 12), Map.empty) \<and>
   Tool_call example_env multiply_tool [VInt 3] [(''b'', VInt 4)] Map.empty =
     (Inr (VInt 12), Map.empty)"
proof -
  have c: "f_call (example_env 1) = calculator_body"
    by (simp add: example_env_def multiply_def calculator_def)
  have "calculator_body [VInt 3, VInt 4] [] Map.empty = (Inr (VInt 12), Map.empty)"
    "calculator_body [VInt 3] [(''b'', VInt 4)] Map.empty = (Inr (VInt 12), Map.empty)"
    by (simp_all add: calculator_body_def bind_params_def py_mul_def)
  with c example_tools(1) show ?thesis
    using Tool_call_delegates [of "[]" multiply_tool 1 example_env "[VInt 3, VInt 4]" Map.empty]
      Tool_call_delegates [of "[(''b'', VInt 4)]" multiply_tool 1 example_env "[VInt 3]" Map.empty]
    by (simp add: multiply_tool_def Tool_init_def)
qed

text \<open>
  Under the same condition a call of the \<open>Tool\<close> raises an exception exactly when the
  wrapped function raises it: nothing is caught, wrapped or translated.
\<close>

theorem Tool_call_raises_alike:
  "''self'' \<notin> set (map fst kw) \<and> func t = Fun i \<longrightarrow>
     (fst (Tool_call env t args kw h) = Inl e \<longleftrightarrow> fst (f_call (env i) args kw h) = Inl e)"
  by (simp add: Tool_call_function)

theorem Tool_call_raises_alike_witness:
  "tool example_env (Fun 5) = Inr fail_tool \<and>
   fst (f_call (example_env 5) [] [] Map.empty) = Inl (Raised ''RuntimeError: boom'') \<and>
   fst (Tool_call example_env fail_tool [] [] Map.empty) = Inl (Raised ''RuntimeError: boom'')"
proof -
  have "fst (f_call (example_env 5) [] [] Map.empty) = Inl (Raised ''RuntimeError: boom'')"
    by (simp add: example_env_def fail_def fail_body_def bind_params_def)
  with example_tools(4) show ?thesis
    using Tool_call_raises_alike [of "[]" fail_tool 5 example_env "[]" Map.empty
        "Raised ''RuntimeError: boom''"]
    by (simp add: fail_tool_def Tool_init_def)
qed

text \<open>
  C3. The claim holds for every call but one kind. \<open>identity(self=1)\<close> returns 1, while
  the \<open>Tool\<close> made from \<open>identity\<close>, called with the same keyword argument, raises
  \<open>TypeError\<close>: the keyword collides with the parameter \<open>self\<close> of \<open>Tool.__call__\<close>
  and the wrapped function is never called.
\<close>

theorem Tool_call_keyword_self:
  "tool example_env (Fun 3) = Inr identity_tool \<and>
   f_call (example_env 3) [] [(''self'', VInt 1)] Map.empty = (Inr (VInt 1), Map.empty) \<and>
   Tool_call example_env identity_tool [] [(''self'', VInt 1)] Map.empty =
     (Inl TypeError, Map.empty)"
  using example_tools(2)
  by (simp add: example_env_def identity_def identity_body_def bind_params_def Tool_call_def)

text \<open>
  C8. For the same reason a call of the \<open>Tool\<close> can raise although the wrapped function,
  given the same arguments, raises nothing: \<open>identity(self="x")\<close> returns its argument
  and the call of the \<open>Tool\<close> raises \<open>TypeError\<close>.
\<close>

theorem Tool_call_raises_alone:
  "tool example_env (Fun 3) = Inr identity_tool \<and>
   fst (f_call (example_env 3) [] [(''self'', VStr ''x'')] Map.empty) = Inr (VStr ''x'') \<and>
   fst (Tool_call example_env identity_tool [] [(''self'', VStr ''x'')] Map.empty) = Inl TypeError"
  using example_tools(2)
  by (simp add: example_env_def identity_def identity_body_def bind_params_def Tool_call_def)

text \<open>
  The function of the notebook on arguments that are not two integers: a string is
  repeated, a count that is no index or a result that is too long raises, operands that
  cannot be multiplied and a missing argument raise \<open>TypeError\<close>.
\<close>

theorem calculator_other_values:
  "fst (calculator_body [VStr ''ab'', VInt 3] [] Map.empty) = Inr (VStr ''ababab'') \<and>
   fst (calculator_body [VInt 2, VStr ''ab''] [] Map.empty) = Inr (VStr ''abab'') \<and>
   fst (calculator_body [VStr ''ab'', VInt (- 1)] [] Map.empty) = Inr (VStr []) \<and>
   fst (calculator_body [VStr ''ab'', VInt (- (2 ^ 64))] [] Map.empty) = Inl OverflowError \<and>
   fst (calculator_body [VStr ''ab'', VInt (2 ^ 62)] [] Map.empty) = Inl OverflowError \<and>
   fst (calculator_body [VList [VInt 1, VInt 2], VInt (2 ^ 62)] [] Map.empty) = Inl MemoryError \<and>
   fst (calculator_body [VNone, VInt 1] [] Map.empty) = Inl TypeError \<and>
   fst (calculator_body [VStr ''a'', VStr ''b''] [] Map.empty) = Inl TypeError \<and>
   fst (calculator_body [VInt 3] [] Map.empty) = Inl TypeError"
  by (simp add: calculator_body_def bind_params_def py_mul_def is_index_def too_long_def
      ssize_t_max_def repeat_def numeral_3_eq_3 numeral_2_eq_2)

section \<open>Fields after the public operations\<close>

text \<open>
  C9, as amended. Neither public operation assigns to a field. \<open>to_string\<close> leaves the
  heap as it is; a call leaves it as it is or as the wrapped function leaves it. So
  after any sequence of the two operations the \<open>Tool\<close> is exactly the one constructed,
  provided the function it wraps does not itself write to it.
\<close>

theorem public_operations_frame:
  "(\<forall>self h. snd (perform env self Render h) = h) \<and>
   (\<forall>self args kw h.
      snd (perform env self (Invoke args kw) h) = h \<or>
      (\<exists>i. func self = Fun i \<and>
           snd (perform env self (Invoke args kw) h) = snd (f_call (env i) args kw h))) \<and>
   (\<forall>self a h opers.
      h a = Some self \<and> (\<forall>i. func self = Fun i \<longrightarrow> leaves_untouched (f_call (env i)) a) \<longrightarrow>
      run env a opers h a = Some self)"
proof (intro conjI allI impI)
  fix self :: Tool and h :: heap
  show "snd (perform env self Render h) = h"
    by (simp add: perform_def)
next
  fix self :: Tool and args kw and h :: heap
  show "snd (perform env self (Invoke args kw) h) = h \<or>
      (\<exists>i. func self = Fun i \<and>
           snd (perform env self (Invoke args kw) h) = snd (f_call (env i) args kw h))"
    by (cases "func self")
      (simp_all add: perform_def Tool_call_def call_object_def split: prod.splits)
next
  fix self :: Tool and a and h :: heap and opers
  assume "h a = Some self \<and> (\<forall>i. func self = Fun i \<longrightarrow> leaves_untouched (f_call (env i)) a)"
  then show "run env a opers h a = Some self"
    using run_frame [of self env a h opers] by blast
qed

theorem public_operations_frame_witness:
  "tool example_env (Fun 1) = Inr multiply_tool \<and>
   run example_env 0
     [Render, Invoke [VInt 3, VInt 4] [], Invoke [] [(''self'', VInt 1)], Invoke [] [], Render]
     (Map.empty(0 \<mapsto> multiply_tool)) 0 = Some multiply_tool \<and>
   snd (perform example_env multiply_tool Render Map.empty) = Map.empty"
proof -
  have "leaves_untouched (f_call (example_env 1)) 0"
    by (simp add: leaves_untouched_def example_env_def multiply_def calculator_def
        calculator_body_heap)
  then have "(Map.empty(0 \<mapsto> multiply_tool)) 0 = Some multiply_tool \<and>
      (\<forall>i. func multiply_tool = Fun i \<longrightarrow> leaves_untouched (f_call (example_env i)) 0)"
    by (simp add: multiply_tool_def Tool_init_def)
  then have "run example_env 0
      [Render, Invoke [VInt 3, VInt 4] [], Invoke [] [(''self'', VInt 1)], Invoke [] [], Render]
      (Map.empty(0 \<mapsto> multiply_tool)) 0 = Some multiply_tool"
    by (rule public_operations_frame [THEN conjunct2, THEN conjunct2, rule_format])
  moreover have "snd (perform example_env multiply_tool Render Map.empty) = Map.empty"
    by (rule public_operations_frame [THEN conjunct1, rule_format])
  ultimately show ?thesis
    using example_tools(1) by blast
qed

text \<open>
  C9 as stated fails: the wrapped function runs with the heap at hand, and \<open>rename\<close>
  assigns to the \<open>name\<close> of the \<open>Tool\<close> made from it, so one call changes the field.
\<close>

theorem invoke_changes_name:
  "tool example_env (Fun 4) = Inr rename_tool \<and>
   name rename_tool = VStr ''rename'' \<and>
   run example_env 0 [Invoke [] []] (Map.empty(0 \<mapsto> rename_tool)) 0 =
     Some (rename_tool \<lparr> name := VStr ''changed'' \<rparr>)"
  using example_tools(3)
  by (simp add: rename_tool_def Tool_init_def perform_def Tool_call_def
      call_object_def example_env_def rename_def rename_body_def bind_params_def)

section \<open>Direct construction\<close>

text \<open>
  C10. The constructor performs no validation: whatever the five arguments are, it
  returns a \<open>Tool\<close> whose fields are exactly the values supplied. It has no failure
  branch, so it succeeds on every input; the instance has an empty name, a description
  that is not a string, a wrapped object that is not callable and a parameter list that
  fits no signature.
\<close>

theorem Tool_init_stores_verbatim:
  "name (Tool_init n d f a out) = n \<and>
   description (Tool_init n d f a out) = d \<and>
   func (Tool_init n d f a out) = f \<and>
   arguments (Tool_init n d f a out) = a \<and>
   outputs (Tool_init n d f a out) = out \<and>
   Tool_init (VStr []) (VInt 42) (Val VNone) (VList [VStr ''x'', VInt 1]) (VList []) =
     \<lparr> name = VStr [], description = VInt 42, func = Val VNone,
       arguments = VList [VStr ''x'', VInt 1], outputs = VList [] \<rparr>"
  by (simp add: Tool_init_def)

end
